theory Spec2Isabelle
  imports Main "HOL-Library.Multiset" "HOL-Library.Sublist" "HOL-Library.Char_ord"
    "HOL-Library.List_Lexorder" "HOL-Library.Product_Lexorder"
begin

section \<open>The notebook 01-ex1-simple: building a simple TEEHR dataset\<close>

text \<open>
  The notebook is a sequence of code cells. Each cell is embedded as a function on an
  explicit state: the local filesystem, the notebook's dataframe variables and the list of
  the operations performed so far. A raised exception leaves the state as it is at the
  raise and stops the cell (and a run of the whole notebook).
\<close>

subsection \<open>Values, dataframes and files\<close>

text \<open>A Python \<open>datetime\<close>, by its fields.\<close>

record datetime =
  year :: nat
  month :: nat
  day :: nat
  hour :: nat
  minute :: nat
  second :: nat

text \<open>
  One cell of a dataframe. \<open>Scalar\<close> is a value parsed from a CSV token (a number or
  a string); the notebook never inspects it, so it is kept as its text.
\<close>

datatype cell = PyNone | NaN | NaT | Timestamp datetime | Scalar string

text \<open>
  A label of a row index: an integer (the labels of a RangeIndex, or of an index made from
  a column of integers) or any other value, kept as its text.
\<close>

datatype label = Int_label int | Str_label string

text \<open>
  A pandas DataFrame: the index (one label per row, in row order; labels may repeat) and the
  columns in order, each with its values. A Series is an index with one list of values.
\<close>

record dataframe =
  index :: "label list"
  cols :: "(string \<times> cell list) list"

type_synonym series = "label list \<times> cell list"

definition nrows :: "dataframe \<Rightarrow> nat" where
  "nrows df = length (index df)"

definition RangeIndex :: "nat \<Rightarrow> label list" where
  "RangeIndex n = map (\<lambda>i. Int_label (int i)) [0..<n]"

datatype error =
    NameError string
  | KeyError string
  | ValueError
  | FileNotFoundError
  | DataSourceError
  | OSError
  | FileExistsError
  | NotADirectoryError
  | IsADirectoryError
  | ParserError
  | IOError
  | CatalogError
  | LibraryError string

type_synonym path = "string list"

definition columns :: "dataframe \<Rightarrow> string list" where
  "columns df = map fst (cols df)"

text \<open>\<open>df[c] = values\<close>: an existing column is replaced in place, a new one is appended.\<close>

fun set_col :: "string \<Rightarrow> cell list \<Rightarrow> (string \<times> cell list) list \<Rightarrow> (string \<times> cell list) list" where
  "set_col c vs [] = [(c, vs)]"
| "set_col c vs ((k, ws) # kvs) = (if k = c then (c, vs) # kvs else (k, ws) # set_col c vs kvs)"

text \<open>\<open>df[c] = scalar\<close>: the scalar is broadcast over the rows.\<close>

definition setitem_scalar :: "string \<Rightarrow> cell \<Rightarrow> dataframe \<Rightarrow> dataframe" where
  "setitem_scalar c v df = df\<lparr>cols := set_col c (replicate (nrows df) v) (cols df)\<rparr>"

text \<open>\<open>df[c]\<close>: the column's values (a Series on the index of \<open>df\<close>), or KeyError.\<close>

definition getitem :: "dataframe \<Rightarrow> string \<Rightarrow> error + cell list" where
  "getitem df c = (case map_of (cols df) c of None \<Rightarrow> Inl (KeyError c) | Some vs \<Rightarrow> Inr vs)"

text \<open>
  \<open>series.reindex(idx)\<close>, for a series whose labels are unique: the row of label \<open>l\<close>
  takes the series' value at \<open>l\<close>, and a label the series does not have gives a missing
  value (NaT, the series being of dtype datetime64[ns] here).
\<close>

definition reindex :: "label list \<Rightarrow> series \<Rightarrow> cell list" where
  "reindex idx ser = map (\<lambda>l. case map_of (zip (fst ser) (snd ser)) l of None \<Rightarrow> NaT | Some v \<Rightarrow> v) idx"

text \<open>
  A dataframe with no rows that is assigned a series with rows first takes the index of
  the series, its columns being filled with NaN.
\<close>

definition ensure_valid_index :: "series \<Rightarrow> dataframe \<Rightarrow> dataframe" where
  "ensure_valid_index ser df =
     (if index df = [] \<and> fst ser \<noteq> []
      then \<lparr>index = fst ser, cols = map (\<lambda>(k, vs). (k, replicate (length (fst ser)) NaN)) (cols df)\<rparr>
      else df)"

text \<open>
  \<open>df[c] = series\<close>: the series is aligned to the dataframe's index by label. A series
  on the same index gives its values as they are; otherwise the series is reindexed, which
  raises ValueError when a label of the series repeats.
\<close>

definition setitem_series :: "string \<Rightarrow> series \<Rightarrow> dataframe \<Rightarrow> error + dataframe" where
  "setitem_series c ser df =
     (let df1 = ensure_valid_index ser df in
      if fst ser = index df1 then Inr (df1\<lparr>cols := set_col c (snd ser) (cols df1)\<rparr>)
      else if \<not> distinct (fst ser) then Inl ValueError
      else Inr (df1\<lparr>cols := set_col c (reindex (index df1) ser) (cols df1)\<rparr>))"

text \<open>
  What pandas makes of a string cast to datetime64[ns]: a timestamp, a missing value (the
  string \<open>NaT\<close>, for one), or no datetime at all.
\<close>

datatype parsed = Unparseable | Missing | Time datetime

text \<open>
  \<open>series.astype('datetime64[ns]')\<close>, on the values. Missing values become NaT and
  timestamps stay; a string is parsed by pandas (the parser \<open>to_datetime\<close> is a
  parameter), and a string it cannot parse raises ValueError.
\<close>

fun astype_datetime :: "(string \<Rightarrow> parsed) \<Rightarrow> cell list \<Rightarrow> error + cell list" where
  "astype_datetime to_datetime [] = Inr []"
| "astype_datetime to_datetime (v # vs) =
     (case (case v of
              PyNone \<Rightarrow> Inr NaT
            | NaN \<Rightarrow> Inr NaT
            | NaT \<Rightarrow> Inr NaT
            | Timestamp d \<Rightarrow> Inr (Timestamp d)
            | Scalar s \<Rightarrow> (case to_datetime s of
                            Unparseable \<Rightarrow> Inl ValueError
                          | Missing \<Rightarrow> Inr NaT
                          | Time d \<Rightarrow> Inr (Timestamp d)))
      of Inl e \<Rightarrow> Inl e
       | Inr w \<Rightarrow> (case astype_datetime to_datetime vs of Inl e \<Rightarrow> Inl e | Inr ws \<Rightarrow> Inr (w # ws)))"

text \<open>\<open>df.rename(columns={old: new})\<close>; a name that is not a column is ignored.\<close>

definition rename :: "string \<Rightarrow> string \<Rightarrow> dataframe \<Rightarrow> dataframe" where
  "rename old new df = df\<lparr>cols := map (\<lambda>(k, vs). (if k = old then new else k, vs)) (cols df)\<rparr>"


subsection \<open>The tables of the embedded database\<close>

text \<open>
  Modelled from the spec: the record types of the external teehr package, which is not in
  the repository. A timeseries record is (location_id, value_time, value, variable_name,
  unit, configuration, reference_time), a crosswalk row maps a primary location identifier
  to a secondary one, and an attribute row is a (location_id, attribute_name, value)
  triple. Measured values are never computed with; they are kept as their text.
\<close>

record timeseries =
  ts_location_id :: string
  ts_value_time :: datetime
  ts_value :: string
  ts_variable_name :: string
  ts_unit :: string
  ts_configuration :: string
  ts_reference_time :: "datetime option"

record crosswalk =
  xw_primary_location_id :: string
  xw_secondary_location_id :: string

record attribute =
  attr_location_id :: string
  attr_name :: string
  attr_value :: string

datatype field = Varchar string | Integer int

text \<open>
  A row of the table \<open>joined_timeseries\<close>: the base fields, and the fields added later
  (attributes and calculated fields) by name.
\<close>

record joined_row =
  reference_time :: "datetime option"
  value_time :: datetime
  secondary_location_id :: string
  secondary_value :: string
  configuration :: string
  measurement_unit :: string
  variable_name :: string
  primary_value :: string
  primary_location_id :: string
  added_fields :: "(string \<times> field) list"

subsection \<open>The filesystem\<close>

datatype content =
    CSV dataframe
  | GeoJSON dataframe
  | Parquet dataframe
  | Joined_parquet "joined_row list"
  | Database "joined_row list"
  | Other

datatype entry = Dir | File content

type_synonym filesystem = "(path \<times> entry) list"

text \<open>The entry at a path: the first one listed for it. The root directory always exists.\<close>

fun entry_at :: "filesystem \<Rightarrow> path \<Rightarrow> entry option" where
  "entry_at [] p = None"
| "entry_at ((q, e) # f) p = (if q = p then Some e else entry_at f p)"

definition lookup :: "filesystem \<Rightarrow> path \<Rightarrow> entry option" where
  "lookup f p = (if p = [] then Some Dir else entry_at f p)"

definition fs_remove :: "path \<Rightarrow> filesystem \<Rightarrow> filesystem" where
  "fs_remove p f = filter (\<lambda>(q, _). q \<noteq> p) f"

definition fs_put :: "path \<Rightarrow> entry \<Rightarrow> filesystem \<Rightarrow> filesystem" where
  "fs_put p e f = (p, e) # fs_remove p f"

text \<open>\<open>rm -rf d\<close>: the directory and everything below it.\<close>

definition rm_rf :: "path \<Rightarrow> filesystem \<Rightarrow> filesystem" where
  "rm_rf d f = filter (\<lambda>(q, _). \<not> prefix d q) f"

text \<open>
  \<open>Path.mkdir(parents=True, exist_ok=True)\<close>, on the reversed path: an existing
  directory is accepted, a file in the way raises (FileExistsError for the path itself,
  NotADirectoryError for an ancestor), and missing ancestors are created first.
\<close>

fun mkdir_rev :: "string list \<Rightarrow> filesystem \<Rightarrow> error + filesystem" where
  "mkdir_rev [] f = Inr f"
| "mkdir_rev (c # rp) f =
     (case entry_at f (rev (c # rp)) of
        Some Dir \<Rightarrow> Inr f
      | Some (File _) \<Rightarrow> Inl FileExistsError
      | None \<Rightarrow>
          (case mkdir_rev rp f of
             Inl _ \<Rightarrow> Inl NotADirectoryError
           | Inr f' \<Rightarrow> Inr ((rev (c # rp), Dir) # f')))"

definition mkdir_parents :: "path \<Rightarrow> filesystem \<Rightarrow> error + filesystem" where
  "mkdir_parents p f = mkdir_rev (rev p) f"

text \<open>
  One object copied by \<open>aws s3 cp --recursive\<close> to \<open>p\<close>: the directories above it are
  created; a copy that cannot be written is skipped (the shell command reports it and
  goes on).
\<close>

definition copy_in :: "path \<Rightarrow> content \<Rightarrow> filesystem \<Rightarrow> filesystem" where
  "copy_in p c f =
     (if p = [] then f
      else case mkdir_parents (butlast p) f of
             Inl _ \<Rightarrow> f
           | Inr f' \<Rightarrow> (if lookup f' p = Some Dir then f' else fs_put p (File c) f'))"

text \<open>\<open>aws s3 cp --recursive\<close> of the objects (paths relative to the prefix) into \<open>d\<close>.\<close>

definition aws_s3_cp :: "path \<Rightarrow> (path \<times> content) list \<Rightarrow> filesystem \<Rightarrow> filesystem" where
  "aws_s3_cp d objects f = fold (\<lambda>(rel, c). copy_in (d @ rel) c) objects f"

text \<open>The files below \<open>d\<close> that the glob \<open>d/**/*.parquet\<close> matches.\<close>

definition is_parquet_name :: "string \<Rightarrow> bool" where
  "is_parquet_name n = suffix ''.parquet'' n"

definition glob_parquet :: "filesystem \<Rightarrow> path \<Rightarrow> (path \<times> content) list" where
  "glob_parquet f d =
     concat (map (\<lambda>(q, e). case e of
                     File c \<Rightarrow> (if strict_prefix d q \<and> is_parquet_name (last q) then [(q, c)] else [])
                   | Dir \<Rightarrow> []) f)"

subsection \<open>The paths of the notebook\<close>

definition EXAMPLE_DIR :: "path \<Rightarrow> path" where
  "EXAMPLE_DIR h = h @ [''teehr'', ''example-1'']"

definition RAW_DATA_FILEPATH :: "path \<Rightarrow> path" where
  "RAW_DATA_FILEPATH h = h @ [''teehr'', ''example-1'', ''raw'']"

definition TEEHR_BASE :: "path \<Rightarrow> path" where
  "TEEHR_BASE h = h @ [''teehr'', ''example-1'', ''teehr_base'']"

definition PRIMARY_FILEPATH :: "path \<Rightarrow> path" where
  "PRIMARY_FILEPATH h = TEEHR_BASE h @ [''primary'']"

definition SECONDARY_FILEPATH :: "path \<Rightarrow> path" where
  "SECONDARY_FILEPATH h = TEEHR_BASE h @ [''secondary'']"

definition CROSSWALK_FILEPATH :: "path \<Rightarrow> path" where
  "CROSSWALK_FILEPATH h = TEEHR_BASE h @ [''crosswalk'']"

definition GEOMETRY_FILEPATH :: "path \<Rightarrow> path" where
  "GEOMETRY_FILEPATH h = TEEHR_BASE h @ [''geometry'']"

definition ATTRIBUTE_FILEPATH :: "path \<Rightarrow> path" where
  "ATTRIBUTE_FILEPATH h = TEEHR_BASE h @ [''attribute'']"

definition JOINED_FILEPATH :: "path \<Rightarrow> path" where
  "JOINED_FILEPATH h = TEEHR_BASE h @ [''joined'']"

definition DB_FILEPATH :: "path \<Rightarrow> path" where
  "DB_FILEPATH h = TEEHR_BASE h @ [''teehr.db'']"

subsection \<open>State, exceptions and the operations of the libraries\<close>

text \<open>The operations a cell performs, in the order it performs them.\<close>

datatype op =
    Shell string
  | Mkdir path
  | Read_file path
  | Read_csv path
  | To_parquet path dataframe
  | Is_file path
  | Unlink path
  | Connect path
  | Insert_joined_timeseries
  | Insert_attributes
  | Insert_calculated_field string string
  | Get_schema
  | Copy_to path
  | Analysis string

record state =
  fs :: filesystem
  frames :: "string \<rightharpoonup> dataframe"
  ddb :: "path option"
  trace :: "op list"

text \<open>
  What the notebook takes from outside: the home directory, the objects the download
  delivers (paths relative to the example directory), and the library functions whose
  code is not in the repository, as parameters. \<open>parse_csv\<close> and \<open>parse_geo\<close> say what
  \<open>pd.read_csv\<close> and \<open>gpd.read_file\<close> make of a file that is not a CSV table, or not a
  GeoJSON file.
\<close>

record ext =
  home :: path
  download :: "(path \<times> content) list"
  to_datetime :: "string \<Rightarrow> parsed"
  parse_csv :: "content \<Rightarrow> error + dataframe"
  parse_geo :: "content \<Rightarrow> error + dataframe"
  read_timeseries :: "dataframe \<Rightarrow> error + timeseries list"
  read_crosswalk :: "dataframe \<Rightarrow> error + crosswalk list"
  read_attributes :: "dataframe \<Rightarrow> error + attribute list"
  analysis :: "string \<Rightarrow> filesystem \<Rightarrow> error option"

type_synonym 'a py = "state \<Rightarrow> (error + 'a) \<times> state"

definition bind :: "'a py \<Rightarrow> ('a \<Rightarrow> 'b py) \<Rightarrow> 'b py" where
  "bind m k s = (case m s of (Inl e, s') \<Rightarrow> (Inl e, s') | (Inr x, s') \<Rightarrow> k x s')"

definition lift :: "error + 'a \<Rightarrow> 'a py" where
  "lift r s = (r, s)"

definition modify :: "(state \<Rightarrow> state) \<Rightarrow> unit py" where
  "modify g s = (Inr (), g s)"

definition log :: "op \<Rightarrow> unit py" where
  "log x = modify (\<lambda>s. s\<lparr>trace := trace s @ [x]\<rparr>)"

text \<open>Statements in sequence: the first exception ends the sequence.\<close>

fun block :: "unit py list \<Rightarrow> unit py" where
  "block [] s = (Inr (), s)"
| "block (c # cs) s = (case c s of (Inl e, s') \<Rightarrow> (Inl e, s') | (Inr _, s') \<Rightarrow> block cs s')"

definition get_df :: "string \<Rightarrow> dataframe py" where
  "get_df name s = (case frames s name of None \<Rightarrow> (Inl (NameError name), s) | Some df \<Rightarrow> (Inr df, s))"

definition set_df :: "string \<Rightarrow> dataframe \<Rightarrow> unit py" where
  "set_df name df = modify (\<lambda>s. s\<lparr>frames := (frames s)(name \<mapsto> df)\<rparr>)"

definition shell :: "string \<Rightarrow> (filesystem \<Rightarrow> filesystem) \<Rightarrow> unit py" where
  "shell cmd g = bind (log (Shell cmd)) (\<lambda>_. modify (\<lambda>s. s\<lparr>fs := g (fs s)\<rparr>))"

definition mkdir :: "path \<Rightarrow> unit py" where
  "mkdir p = bind (log (Mkdir p)) (\<lambda>_ s.
     case mkdir_parents p (fs s) of Inl e \<Rightarrow> (Inl e, s) | Inr f \<Rightarrow> (Inr (), s\<lparr>fs := f\<rparr>))"

text \<open>
  \<open>pd.read_csv(p)\<close>. A CSV file gives its table, with the index pandas builds for it (a
  RangeIndex, or the first column when the header is one name short).
\<close>

definition read_csv :: "ext \<Rightarrow> path \<Rightarrow> dataframe py" where
  "read_csv x p = bind (log (Read_csv p)) (\<lambda>_ s.
     case lookup (fs s) p of
       None \<Rightarrow> (Inl FileNotFoundError, s)
     | Some Dir \<Rightarrow> (Inl IsADirectoryError, s)
     | Some (File (CSV df)) \<Rightarrow> (Inr df, s)
     | Some (File c) \<Rightarrow> (parse_csv x c, s))"

text \<open>
  \<open>gpd.read_file(p)\<close>. A path that cannot be opened as a data source raises the error
  of the I/O engine (DataSourceError with pyogrio, DriverError with fiona).
\<close>

definition read_file :: "ext \<Rightarrow> path \<Rightarrow> dataframe py" where
  "read_file x p = bind (log (Read_file p)) (\<lambda>_ s.
     case lookup (fs s) p of
       None \<Rightarrow> (Inl DataSourceError, s)
     | Some Dir \<Rightarrow> (Inl DataSourceError, s)
     | Some (File (GeoJSON df)) \<Rightarrow> (Inr df, s)
     | Some (File c) \<Rightarrow> (parse_geo x c, s))"

text \<open>
  \<open>df.to_parquet(p)\<close>: column names must be unique, the directory of \<open>p\<close> must exist
  (OSError otherwise, or a subclass of it) and \<open>p\<close> must not be a directory; an existing
  file is overwritten.
\<close>

definition to_parquet :: "dataframe \<Rightarrow> path \<Rightarrow> unit py" where
  "to_parquet df p = bind (log (To_parquet p df)) (\<lambda>_ s.
     if \<not> distinct (columns df) then (Inl ValueError, s)
     else case lookup (fs s) (butlast p) of
            None \<Rightarrow> (Inl OSError, s)
          | Some (File _) \<Rightarrow> (Inl OSError, s)
          | Some Dir \<Rightarrow>
              (if lookup (fs s) p = Some Dir then (Inl IsADirectoryError, s)
               else (Inr (), s\<lparr>fs := fs_put p (File (Parquet df)) (fs s)\<rparr>)))"

definition is_file :: "path \<Rightarrow> bool py" where
  "is_file p = bind (log (Is_file p)) (\<lambda>_ s.
     (Inr (case lookup (fs s) p of Some (File _) \<Rightarrow> True | _ \<Rightarrow> False), s))"

definition unlink :: "path \<Rightarrow> unit py" where
  "unlink p = bind (log (Unlink p)) (\<lambda>_ s.
     case lookup (fs s) p of
       None \<Rightarrow> (Inl FileNotFoundError, s)
     | Some Dir \<Rightarrow> (Inl IsADirectoryError, s)
     | Some (File _) \<Rightarrow> (Inr (), s\<lparr>fs := fs_remove p (fs s)\<rparr>))"


text \<open>
  One library call of the analysis part (queries on the joined Parquet files and plots).
  It reads files only; whether it fails is decided by the library.
\<close>

definition analysis_call :: "ext \<Rightarrow> string \<Rightarrow> unit py" where
  "analysis_call x name = bind (log (Analysis name)) (\<lambda>_ s.
     case analysis x name (fs s) of None \<Rightarrow> (Inr (), s) | Some e \<Rightarrow> (Inl e, s))"

subsection \<open>The embedded database\<close>

text \<open>
  Modelled from the spec: the class DuckDBDatabase of the external teehr package, which is
  not in the repository. The database file is scratch space holding the table
  \<open>joined_timeseries\<close>; opening a path with no file creates the file with an empty table.
\<close>

definition DuckDBDatabase :: "path \<Rightarrow> unit py" where
  "DuckDBDatabase p = bind (log (Connect p)) (\<lambda>_ s.
     case lookup (fs s) p of
       None \<Rightarrow>
         (case lookup (fs s) (butlast p) of
            Some Dir \<Rightarrow> (Inr (), s\<lparr>fs := fs_put p (File (Database [])) (fs s), ddb := Some p\<rparr>)
          | _ \<Rightarrow> (Inl IOError, s))
     | Some Dir \<Rightarrow> (Inl IOError, s)
     | Some (File (Database rows)) \<Rightarrow> (Inr (), s\<lparr>ddb := Some p\<rparr>)
     | Some (File _) \<Rightarrow> (Inl IOError, s))"

definition db_rows :: "joined_row list py" where
  "db_rows s =
     (case ddb s of
        None \<Rightarrow> (Inl (NameError ''ddb''), s)
      | Some p \<Rightarrow>
          (case lookup (fs s) p of
             Some (File (Database rows)) \<Rightarrow> (Inr rows, s)
           | None \<Rightarrow> (Inl CatalogError, s)
           | _ \<Rightarrow> (Inl IOError, s)))"

definition db_store :: "joined_row list \<Rightarrow> unit py" where
  "db_store rows s =
     (case ddb s of
        None \<Rightarrow> (Inl (NameError ''ddb''), s)
      | Some p \<Rightarrow> (Inr (), s\<lparr>fs := fs_put p (File (Database rows)) (fs s)\<rparr>))"

text \<open>The rows of the Parquet files a glob matches, read with the library's reader.\<close>

fun read_all :: "(dataframe \<Rightarrow> error + 'a list) \<Rightarrow> (path \<times> content) list \<Rightarrow> error + 'a list" where
  "read_all rd [] = Inr []"
| "read_all rd ((p, c) # rest) =
     (case c of
        Parquet df \<Rightarrow>
          (case rd df of
             Inl e \<Rightarrow> Inl e
           | Inr xs \<Rightarrow> (case read_all rd rest of Inl e \<Rightarrow> Inl e | Inr ys \<Rightarrow> Inr (xs @ ys)))
      | _ \<Rightarrow> Inl IOError)"

definition read_table :: "(dataframe \<Rightarrow> error + 'a list) \<Rightarrow> path \<Rightarrow> 'a list py" where
  "read_table rd d s =
     (case glob_parquet (fs s) d of
        [] \<Rightarrow> (Inl IOError, s)
      | files \<Rightarrow> (read_all rd files, s))"

text \<open>
  Modelled from the spec: the join of insert_joined_timeseries (external teehr package, not
  in the repository). A joined row pairs a primary and a secondary timeseries record on
  location (via the crosswalk) and on time.
\<close>

definition joined_record :: "timeseries \<Rightarrow> timeseries \<Rightarrow> joined_row" where
  "joined_record p s =
     \<lparr>reference_time = ts_reference_time s,
      value_time = ts_value_time s,
      secondary_location_id = ts_location_id s,
      secondary_value = ts_value s,
      configuration = ts_configuration s,
      measurement_unit = ts_unit s,
      variable_name = ts_variable_name s,
      primary_value = ts_value p,
      primary_location_id = ts_location_id p,
      added_fields = []\<rparr>"

definition join_timeseries :: "timeseries list \<Rightarrow> timeseries list \<Rightarrow> crosswalk list \<Rightarrow> joined_row list" where
  "join_timeseries prim sec xw =
     [joined_record p s.
        s \<leftarrow> sec,
        x \<leftarrow> xw, xw_secondary_location_id x = ts_location_id s,
        p \<leftarrow> prim, xw_primary_location_id x = ts_location_id p \<and> ts_value_time p = ts_value_time s]"

definition insert_joined_timeseries :: "ext \<Rightarrow> path \<Rightarrow> path \<Rightarrow> path \<Rightarrow> bool \<Rightarrow> unit py" where
  "insert_joined_timeseries x primary_filepath secondary_filepath crosswalk_filepath drop_added_fields =
     bind (log Insert_joined_timeseries) (\<lambda>_.
     bind db_rows (\<lambda>rows.
     bind (read_table (read_timeseries x) primary_filepath) (\<lambda>prim.
     bind (read_table (read_timeseries x) secondary_filepath) (\<lambda>sec.
     bind (read_table (read_crosswalk x) crosswalk_filepath) (\<lambda>xw.
     db_store ((if drop_added_fields then map (\<lambda>r. r\<lparr>added_fields := []\<rparr>) rows else rows)
               @ join_timeseries prim sec xw))))))"

text \<open>
  Modelled from the spec: insert_attributes (external teehr package). A joined row is
  enriched with the attributes of its primary location; attribute values are added as
  strings.
\<close>

definition add_attributes :: "attribute list \<Rightarrow> joined_row \<Rightarrow> joined_row" where
  "add_attributes attrs r =
     r\<lparr>added_fields := added_fields r
          @ [(attr_name a, Varchar (attr_value a)). a \<leftarrow> attrs, attr_location_id a = primary_location_id r]\<rparr>"

definition insert_attributes :: "ext \<Rightarrow> path \<Rightarrow> unit py" where
  "insert_attributes x attributes_filepath =
     bind (log Insert_attributes) (\<lambda>_.
     bind db_rows (\<lambda>rows.
     bind (read_table (read_attributes x) attributes_filepath) (\<lambda>attrs.
     db_store (map (add_attributes attrs) rows))))"

text \<open>The user-defined function of the notebook.\<close>

definition add_month_field :: "datetime \<Rightarrow> int" where
  "add_month_field arg1 = int (month arg1)"

fun set_field :: "string \<Rightarrow> field \<Rightarrow> (string \<times> field) list \<Rightarrow> (string \<times> field) list" where
  "set_field n v [] = [(n, v)]"
| "set_field n v ((k, w) # kvs) = (if k = n then (n, v) # kvs else (k, w) # set_field n v kvs)"

text \<open>
  Modelled from the spec: insert_calculated_field (external teehr package). The new field
  of every row is the user-defined function applied to the row's parameter fields. The
  notebook's function takes one datetime and returns an int, so the model covers the
  parameter list \<open>[value_time]\<close> and the field type INTEGER; anything else is refused.
\<close>

definition insert_calculated_field :: "string \<Rightarrow> string \<Rightarrow> string list \<Rightarrow> (datetime \<Rightarrow> int) \<Rightarrow> unit py" where
  "insert_calculated_field new_field_name new_field_type parameter_names user_defined_function =
     bind (log (Insert_calculated_field new_field_name new_field_type)) (\<lambda>_.
     bind db_rows (\<lambda>rows.
       if parameter_names = [''value_time''] \<and> new_field_type = ''INTEGER''
       then db_store (map (\<lambda>r. r\<lparr>added_fields :=
              set_field new_field_name (Integer (user_defined_function (value_time r))) (added_fields r)\<rparr>) rows)
       else lift (Inl (LibraryError ''insert_calculated_field''))))"

definition get_joined_timeseries_schema :: "unit py" where
  "get_joined_timeseries_schema = bind (log Get_schema) (\<lambda>_. bind db_rows (\<lambda>_. lift (Inr ())))"

text \<open>
  The export query of the notebook:
  \<^verbatim>\<open>COPY (SELECT * FROM joined_timeseries ORDER BY configuration, primary_location_id, value_time) TO p\<close>.
  Strings are compared lexicographically and timestamps chronologically.
\<close>

definition datetime_key :: "datetime \<Rightarrow> nat \<times> nat \<times> nat \<times> nat \<times> nat \<times> nat" where
  "datetime_key d = (year d, month d, day d, hour d, minute d, second d)"

definition order_key :: "joined_row \<Rightarrow> string \<times> string \<times> nat \<times> nat \<times> nat \<times> nat \<times> nat \<times> nat" where
  "order_key r = (configuration r, primary_location_id r, datetime_key (value_time r))"

definition select_ordered :: "joined_row list \<Rightarrow> joined_row list" where
  "select_ordered rows = sort_key order_key rows"

definition copy_to :: "path \<Rightarrow> unit py" where
  "copy_to p = bind (log (Copy_to p)) (\<lambda>_.
     bind db_rows (\<lambda>rows s.
       case lookup (fs s) (butlast p) of
         Some Dir \<Rightarrow>
           (if lookup (fs s) p = Some Dir then (Inl IOError, s)
            else (Inr (), s\<lparr>fs := fs_put p (File (Joined_parquet (select_ordered rows))) (fs s)\<rparr>))
       | _ \<Rightarrow> (Inl IOError, s)))"


subsection \<open>The cells of the notebook\<close>

text \<open>
  The shell cell: \<open>rm -rf\<close> of the example directory, then the download. A shell command
  that fails raises nothing in the notebook.
\<close>

definition cell_download :: "ext \<Rightarrow> unit py" where
  "cell_download x = block
     [shell ''rm -rf ~/teehr/example-1'' (rm_rf (EXAMPLE_DIR (home x))),
      shell ''aws s3 cp --recursive'' (aws_s3_cp (EXAMPLE_DIR (home x)) (download x))]"

definition cell_mkdirs :: "ext \<Rightarrow> unit py" where
  "cell_mkdirs x = block
     [mkdir (PRIMARY_FILEPATH (home x)),
      mkdir (SECONDARY_FILEPATH (home x)),
      mkdir (CROSSWALK_FILEPATH (home x)),
      mkdir (GEOMETRY_FILEPATH (home x)),
      mkdir (ATTRIBUTE_FILEPATH (home x)),
      mkdir (JOINED_FILEPATH (home x))]"

definition cell_tree :: "unit py" where
  "cell_tree = shell ''tree ~/teehr/example-1'' (\<lambda>f. f)"

definition cell_locations :: "ext \<Rightarrow> unit py" where
  "cell_locations x = block
     [bind (read_file x (RAW_DATA_FILEPATH (home x) @ [''gages.geojson''])) (set_df ''locations''),
      bind (get_df ''locations'') (\<lambda>df. set_df ''locations'' (rename ''station'' ''name'' df)),
      bind (get_df ''locations'') (\<lambda>df. to_parquet df (GEOMETRY_FILEPATH (home x) @ [''locations.parquet'']))]"

text \<open>\<open>v = pd.read_csv(RAW/src); v.to_parquet(dir/dst)\<close>\<close>

definition convert_csv :: "ext \<Rightarrow> string \<Rightarrow> string \<Rightarrow> path \<Rightarrow> string \<Rightarrow> unit py" where
  "convert_csv x v src dir dst = block
     [bind (read_csv x (RAW_DATA_FILEPATH (home x) @ [src])) (set_df v),
      bind (get_df v) (\<lambda>df. to_parquet df (dir @ [dst]))]"

definition cell_baseline_xw :: "ext \<Rightarrow> unit py" where
  "cell_baseline_xw x =
     convert_csv x ''baseline_xw'' ''baseline-crosswalk.csv'' (CROSSWALK_FILEPATH (home x)) ''baseline-crosswalk.parquet''"

definition cell_sim_xw :: "ext \<Rightarrow> unit py" where
  "cell_sim_xw x =
     convert_csv x ''sim_xw'' ''sim-crosswalk.csv'' (CROSSWALK_FILEPATH (home x)) ''sim-crosswalk.parquet''"

definition cell_attributes :: "ext \<Rightarrow> unit py" where
  "cell_attributes x = block
     [convert_csv x ''attr1'' ''gage_attr_2yr_discharge.csv'' (ATTRIBUTE_FILEPATH (home x)) ''2yr_discharge.parquet'',
      convert_csv x ''attr2'' ''gage_attr_drainage_area_km2.csv'' (ATTRIBUTE_FILEPATH (home x)) ''drainage_area.parquet'',
      convert_csv x ''attr3'' ''gage_attr_ecoregion.csv'' (ATTRIBUTE_FILEPATH (home x)) ''ecoregion.parquet'']"

definition cell_obs_read :: "ext \<Rightarrow> unit py" where
  "cell_obs_read x = bind (read_csv x (RAW_DATA_FILEPATH (home x) @ [''obs.csv''])) (set_df ''obs_ts'')"

text \<open>\<open>v[c] = scalar\<close> on the dataframe variable \<open>v\<close>.\<close>

definition assign_scalar :: "string \<Rightarrow> string \<Rightarrow> cell \<Rightarrow> unit py" where
  "assign_scalar v c a = bind (get_df v) (\<lambda>df. set_df v (setitem_scalar c a df))"

text \<open>\<open>target['reference_time'] = source['reference_time'].astype('datetime64[ns]')\<close>\<close>

definition cast_reference_time :: "ext \<Rightarrow> string \<Rightarrow> dataframe \<Rightarrow> unit py" where
  "cast_reference_time x target src =
     bind (lift (getitem src ''reference_time'')) (\<lambda>col.
     bind (lift (astype_datetime (to_datetime x) col)) (\<lambda>ser.
     bind (get_df target) (\<lambda>df.
     bind (lift (setitem_series ''reference_time'' (index src, ser) df)) (\<lambda>df'.
     set_df target df'))))"

definition assign_reference_time :: "ext \<Rightarrow> string \<Rightarrow> string \<Rightarrow> unit py" where
  "assign_reference_time x target source = bind (get_df source) (cast_reference_time x target)"

definition cell_obs_convert :: "ext \<Rightarrow> unit py" where
  "cell_obs_convert x = block
     [assign_scalar ''obs_ts'' ''configuration'' (Scalar ''usgs''),
      assign_scalar ''obs_ts'' ''variable_name'' (Scalar ''streamflow_daily_mean''),
      assign_scalar ''obs_ts'' ''measurement_unit'' (Scalar ''cms''),
      assign_scalar ''obs_ts'' ''reference_time'' PyNone,
      assign_reference_time x ''obs_ts'' ''obs_ts'',
      bind (get_df ''obs_ts'') (\<lambda>df. to_parquet df (PRIMARY_FILEPATH (home x) @ [''obs.parquet'']))]"

definition cell_baseline_read :: "ext \<Rightarrow> unit py" where
  "cell_baseline_read x =
     bind (read_csv x (RAW_DATA_FILEPATH (home x) @ [''baseline.csv''])) (set_df ''baseline_ts'')"

definition cell_baseline_convert :: "ext \<Rightarrow> unit py" where
  "cell_baseline_convert x = block
     [assign_scalar ''baseline_ts'' ''configuration'' (Scalar ''baseline''),
      assign_scalar ''baseline_ts'' ''variable_name'' (Scalar ''streamflow_daily_mean''),
      assign_scalar ''baseline_ts'' ''measurement_unit'' (Scalar ''cms''),
      assign_scalar ''baseline_ts'' ''reference_time'' PyNone,
      assign_reference_time x ''baseline_ts'' ''baseline_ts'',
      bind (get_df ''baseline_ts'') (\<lambda>df. to_parquet df (SECONDARY_FILEPATH (home x) @ [''baseline.parquet'']))]"

definition cell_sim_read :: "ext \<Rightarrow> unit py" where
  "cell_sim_read x = bind (read_csv x (RAW_DATA_FILEPATH (home x) @ [''sim.csv''])) (set_df ''sim_ts'')"

definition cell_sim_convert :: "ext \<Rightarrow> unit py" where
  "cell_sim_convert x = block
     [assign_scalar ''sim_ts'' ''configuration'' (Scalar ''sim''),
      assign_scalar ''sim_ts'' ''variable_name'' (Scalar ''streamflow_daily_mean''),
      assign_scalar ''sim_ts'' ''measurement_unit'' (Scalar ''cms''),
      assign_scalar ''sim_ts'' ''reference_time'' PyNone,
      assign_reference_time x ''sim_ts'' ''baseline_ts'',
      bind (get_df ''sim_ts'') (\<lambda>df. to_parquet df (SECONDARY_FILEPATH (home x) @ [''sim.parquet'']))]"

text \<open>\<open>if DB_FILEPATH.is_file(): DB_FILEPATH.unlink()\<close>\<close>

definition delete_db :: "ext \<Rightarrow> unit py" where
  "delete_db x = bind (is_file (DB_FILEPATH (home x))) (\<lambda>b.
     if b then unlink (DB_FILEPATH (home x)) else lift (Inr ()))"

definition cell_create_db :: "ext \<Rightarrow> unit py" where
  "cell_create_db x = block [delete_db x, DuckDBDatabase (DB_FILEPATH (home x))]"

definition cell_insert_joined :: "ext \<Rightarrow> unit py" where
  "cell_insert_joined x =
     insert_joined_timeseries x (PRIMARY_FILEPATH (home x)) (SECONDARY_FILEPATH (home x))
       (CROSSWALK_FILEPATH (home x)) True"

definition cell_insert_attributes :: "ext \<Rightarrow> unit py" where
  "cell_insert_attributes x = insert_attributes x (ATTRIBUTE_FILEPATH (home x))"

definition cell_add_month :: "unit py" where
  "cell_add_month = insert_calculated_field ''month'' ''INTEGER'' [''value_time''] add_month_field"

definition cell_schema :: "unit py" where
  "cell_schema = get_joined_timeseries_schema"

definition cell_export :: "ext \<Rightarrow> unit py" where
  "cell_export x = copy_to (JOINED_FILEPATH (home x) @ [''joined.parquet''])"

definition cell_delete_db :: "ext \<Rightarrow> unit py" where
  "cell_delete_db x = delete_db x"

text \<open>The whole notebook, cell by cell (the import cell and the cells that only bind path
  constants change nothing).\<close>

definition notebook :: "ext \<Rightarrow> unit py list" where
  "notebook x =
     [cell_download x, cell_mkdirs x, cell_tree,
      cell_locations x, cell_baseline_xw x, cell_sim_xw x, cell_attributes x,
      cell_obs_read x, cell_obs_convert x,
      cell_baseline_read x, cell_baseline_convert x,
      cell_sim_read x, cell_sim_convert x,
      cell_tree,
      cell_create_db x, cell_insert_joined x, cell_insert_attributes x, cell_add_month,
      cell_schema, cell_export x, cell_delete_db x,
      cell_tree,
      analysis_call x ''DuckDBJoinedParquet'',
      analysis_call x ''get_joined_timeseries'',
      analysis_call x ''hvplot timeseries'',
      analysis_call x ''get_metrics'',
      analysis_call x ''hvplot metrics'']"

definition run_all :: "ext \<Rightarrow> unit py" where
  "run_all x = block (notebook x)"

section \<open>Notions used in the statements\<close>

subsection \<open>The converted timeseries dataframes\<close>


definition with_static_columns :: "string \<Rightarrow> dataframe \<Rightarrow> dataframe" where
  "with_static_columns cfg df =
     setitem_scalar ''reference_time'' PyNone
       (setitem_scalar ''measurement_unit'' (Scalar ''cms'')
         (setitem_scalar ''variable_name'' (Scalar ''streamflow_daily_mean'')
           (setitem_scalar ''configuration'' (Scalar cfg) df)))"




definition written_column :: "state \<Rightarrow> path \<Rightarrow> string \<Rightarrow> cell list option" where
  "written_column s p c =
     (case lookup (fs s) p of
        Some (File (Parquet df)) \<Rightarrow> (case getitem df c of Inr vs \<Rightarrow> Some vs | Inl _ \<Rightarrow> None)
      | _ \<Rightarrow> None)"

subsection \<open>Example inputs\<close>

definition ex_date :: datetime where
  "ex_date = \<lparr>year = 2020, month = 3, day = 1, hour = 0, minute = 0, second = 0\<rparr>"


definition ex_ext0 :: ext where
  "ex_ext0 =
     \<lparr>home = [''home''], download = [], to_datetime = (\<lambda>_. Unparseable),
      parse_csv = (\<lambda>_. Inl ParserError), parse_geo = (\<lambda>_. Inl DataSourceError),
      read_timeseries = (\<lambda>_. Inr []), read_crosswalk = (\<lambda>_. Inr []), read_attributes = (\<lambda>_. Inr []),
      analysis = (\<lambda>_ _. None)\<rparr>"

definition ex_dirs :: filesystem where
  "ex_dirs = [(PRIMARY_FILEPATH [''home''], Dir), (SECONDARY_FILEPATH [''home''], Dir)]"


definition ex_sim_state :: state where
  "ex_sim_state =
     \<lparr>fs = ex_dirs,
      frames = [''sim_ts'' \<mapsto>
                  \<lparr>index = [Int_label 0, Int_label 1, Int_label 2],
                   cols = [(''reference_time'', [Scalar ''a'', Scalar ''b'', Scalar ''c''])]\<rparr>,
                ''baseline_ts'' \<mapsto>
                  \<lparr>index = [Int_label 1, Int_label 0],
                   cols = [(''reference_time'', [Timestamp (ex_date\<lparr>year := 2021\<rparr>), Timestamp ex_date])]\<rparr>],
      ddb = None, trace = []\<rparr>"

definition exported :: "state \<Rightarrow> path \<Rightarrow> joined_row list option" where
  "exported s p = (case lookup (fs s) p of Some (File (Joined_parquet rows)) \<Rightarrow> Some rows | _ \<Rightarrow> None)"

definition table :: "state \<Rightarrow> joined_row list option" where
  "table s = (case db_rows s of (Inr rows, _) \<Rightarrow> Some rows | (Inl _, _) \<Rightarrow> None)"

definition ex_row :: "string \<Rightarrow> string \<Rightarrow> nat \<Rightarrow> joined_row" where
  "ex_row cfg loc d =
     \<lparr>reference_time = None, value_time = ex_date\<lparr>day := d\<rparr>,
      secondary_location_id = ''s-1'', secondary_value = ''1.6'', configuration = cfg,
      measurement_unit = ''cms'', variable_name = ''streamflow_daily_mean'',
      primary_value = ''1.5'', primary_location_id = loc, added_fields = []\<rparr>"

definition ex_db_state :: "joined_row list \<Rightarrow> state" where
  "ex_db_state rows =
     \<lparr>fs = [(JOINED_FILEPATH [''home''], Dir), (DB_FILEPATH [''home''], File (Database rows))],
      frames = Map.empty, ddb = Some (DB_FILEPATH [''home'']), trace = []\<rparr>"

definition ex_rows :: "joined_row list" where
  "ex_rows = [ex_row ''sim'' ''gage-A'' 1, ex_row ''baseline'' ''gage-B'' 1,
              ex_row ''baseline'' ''gage-A'' 2, ex_row ''baseline'' ''gage-A'' 1]"

definition days_in_month :: "nat \<Rightarrow> nat \<Rightarrow> nat" where
  "days_in_month y m =
     (if m = 2 then (if y mod 4 = 0 \<and> (y mod 100 \<noteq> 0 \<or> y mod 400 = 0) then 29 else 28)
      else if m \<in> {4, 6, 9, 11} then 30 else 31)"

definition valid_datetime :: "datetime \<Rightarrow> bool" where
  "valid_datetime d \<longleftrightarrow>
     1 \<le> year d \<and> year d \<le> 9999 \<and> 1 \<le> month d \<and> month d \<le> 12
   \<and> 1 \<le> day d \<and> day d \<le> days_in_month (year d) (month d)
   \<and> hour d < 24 \<and> minute d < 60 \<and> second d < 60"

definition ex_month_state :: state where
  "ex_month_state = ex_db_state [ex_row ''sim'' ''gage-A'' 1]"

definition pairs :: "timeseries list \<Rightarrow> timeseries list \<Rightarrow> crosswalk list \<Rightarrow> joined_row \<Rightarrow> bool" where
  "pairs prim sec xw r \<longleftrightarrow>
     (\<exists>p \<in> set prim. \<exists>s \<in> set sec. \<exists>c \<in> set xw.
        xw_primary_location_id c = ts_location_id p
      \<and> xw_secondary_location_id c = ts_location_id s
      \<and> ts_value_time p = ts_value_time s
      \<and> value_time r = ts_value_time p
      \<and> primary_location_id r = ts_location_id p
      \<and> secondary_location_id r = ts_location_id s
      \<and> primary_value r = ts_value p
      \<and> secondary_value r = ts_value s)"

definition attributes_of :: "attribute list \<Rightarrow> string \<Rightarrow> (string \<times> field) list" where
  "attributes_of attrs loc = [(attr_name a, Varchar (attr_value a)). a \<leftarrow> attrs, attr_location_id a = loc]"

definition read_from :: "(dataframe \<Rightarrow> error + 'a list) \<Rightarrow> path \<Rightarrow> state \<Rightarrow> 'a list option" where
  "read_from rd d s = (case read_table rd d s of (Inr xs, _) \<Rightarrow> Some xs | (Inl _, _) \<Rightarrow> None)"

definition ex_ts :: "string \<Rightarrow> string \<Rightarrow> string \<Rightarrow> timeseries" where
  "ex_ts loc v cfg =
     \<lparr>ts_location_id = loc, ts_value_time = ex_date, ts_value = v,
      ts_variable_name = ''streamflow_daily_mean'', ts_unit = ''cms'', ts_configuration = cfg,
      ts_reference_time = None\<rparr>"

definition ex_xw :: crosswalk where
  "ex_xw = \<lparr>xw_primary_location_id = ''gage-A'', xw_secondary_location_id = ''s-1''\<rparr>"

definition ex_attr :: attribute where
  "ex_attr = \<lparr>attr_location_id = ''gage-A'', attr_name = ''ecoregion'', attr_value = ''coastal''\<rparr>"

definition ex_ext1 :: ext where
  "ex_ext1 =
     \<lparr>home = [''home''], download = [], to_datetime = (\<lambda>_. Unparseable),
      parse_csv = (\<lambda>_. Inl ParserError), parse_geo = (\<lambda>_. Inl DataSourceError),
      read_timeseries = (\<lambda>df. if getitem df ''configuration'' = Inr [Scalar ''usgs'']
                                then Inr [ex_ts ''gage-A'' ''1.5'' ''usgs'']
                                else Inr [ex_ts ''s-1'' ''1.6'' ''sim'', ex_ts ''s-2'' ''1.7'' ''sim'']),
      read_crosswalk = (\<lambda>_. Inr [ex_xw]),
      read_attributes = (\<lambda>_. Inr [ex_attr]),
      analysis = (\<lambda>_ _. None)\<rparr>"

definition ex_frame :: "string \<Rightarrow> dataframe" where
  "ex_frame cfg = \<lparr>index = RangeIndex 1, cols = [(''configuration'', [Scalar cfg])]\<rparr>"

definition ex_join_state :: state where
  "ex_join_state =
     \<lparr>fs = [(PRIMARY_FILEPATH [''home''] @ [''obs.parquet''], File (Parquet (ex_frame ''usgs''))),
            (SECONDARY_FILEPATH [''home''] @ [''sim.parquet''], File (Parquet (ex_frame ''sim''))),
            (CROSSWALK_FILEPATH [''home''] @ [''sim-crosswalk.parquet''], File (Parquet (ex_frame ''''))),
            (ATTRIBUTE_FILEPATH [''home''] @ [''ecoregion.parquet''], File (Parquet (ex_frame ''''))),
            (DB_FILEPATH [''home''], File (Database []))],
      frames = Map.empty, ddb = Some (DB_FILEPATH [''home'']), trace = []\<rparr>"

definition ex_joined_row :: joined_row where
  "ex_joined_row =
     \<lparr>reference_time = None, value_time = ex_date,
      secondary_location_id = ''s-1'', secondary_value = ''1.6'', configuration = ''sim'',
      measurement_unit = ''cms'', variable_name = ''streamflow_daily_mean'',
      primary_value = ''1.5'', primary_location_id = ''gage-A'',
      added_fields = [(''ecoregion'', Varchar ''coastal'')]\<rparr>"

definition emits :: "(op \<Rightarrow> bool) \<Rightarrow> 'a py \<Rightarrow> bool" where
  "emits W c \<longleftrightarrow> (\<forall>s r s'. c s = (r, s') \<longrightarrow> (\<exists>new. trace s' = trace s @ new \<and> list_all W new))"






definition segment :: "ext \<Rightarrow> nat \<Rightarrow> nat \<Rightarrow> unit py" where
  "segment x k n = block (take n (drop k (notebook x)))"























subsection \<open>The statements of the notebook\<close>








section \<open>Proofs\<close>

subsection \<open>Dataframes\<close>


lemma map_of_set_col: "map_of (set_col c vs kvs) k = (if k = c then Some vs else map_of kvs k)"
  by (induction kvs) auto



lemma index_setitem_scalar: "index (setitem_scalar c v df) = index df"
  by (simp add: setitem_scalar_def)



lemma setitem_series_cases:
  "setitem_series c ser df =
     (if index df = [] \<and> fst ser \<noteq> []
      then Inr \<lparr>index = fst ser,
                cols = set_col c (snd ser) (map (\<lambda>(k, vs). (k, replicate (length (fst ser)) NaN)) (cols df))\<rparr>
      else if fst ser = index df then Inr (df\<lparr>cols := set_col c (snd ser) (cols df)\<rparr>)
      else if \<not> distinct (fst ser) then Inl ValueError
      else Inr (df\<lparr>cols := set_col c (reindex (index df) ser) (cols df)\<rparr>))"
  by (simp add: setitem_series_def ensure_valid_index_def Let_def)




lemma getitem_setitem_series:
  "setitem_series c ser df = Inr d \<Longrightarrow>
   getitem d c = Inr (if index df = [] \<and> fst ser \<noteq> [] \<or> fst ser = index df then snd ser
                      else reindex (index df) ser)"
  by (auto simp: setitem_series_cases getitem_def map_of_set_col split: if_splits)



lemma setitem_series_distinct:
  "setitem_series c ser df = Inr d \<Longrightarrow> index df \<noteq> [] \<Longrightarrow> fst ser \<noteq> index df \<Longrightarrow> distinct (fst ser)"
  by (auto simp: setitem_series_cases split: if_splits)

lemma reindex_length: "length (reindex idx ser) = length idx"
  by (simp add: reindex_def)

lemma reindex_absent: "i < length idx \<Longrightarrow> idx ! i \<notin> set (fst ser) \<Longrightarrow> reindex idx ser ! i = NaT"
proof -
  assume i: "i < length idx" and a: "idx ! i \<notin> set (fst ser)"
  have "map_of (zip (fst ser) (snd ser)) (idx ! i) = None"
  proof (rule ccontr)
    assume "map_of (zip (fst ser) (snd ser)) (idx ! i) \<noteq> None"
    then obtain v where "map_of (zip (fst ser) (snd ser)) (idx ! i) = Some v" by blast
    then have "(idx ! i, v) \<in> set (zip (fst ser) (snd ser))" by (rule map_of_SomeD)
    then have "idx ! i \<in> set (fst ser)" by (rule set_zip_leftD)
    with a show False by simp
  qed
  with i show ?thesis by (simp add: reindex_def)
qed

lemma reindex_present:
  assumes "distinct (fst ser)" and "i < length idx" and "j < length (fst ser)" and "j < length (snd ser)"
    and "idx ! i = fst ser ! j"
  shows "reindex idx ser ! i = snd ser ! j"
proof -
  have d: "distinct (map fst (zip (fst ser) (snd ser)))"
    using assms(1) by (simp add: distinct_take map_fst_zip_take)
  have "(fst ser ! j, snd ser ! j) \<in> set (zip (fst ser) (snd ser))"
    using assms(3,4) by (auto simp: set_zip)
  with d have "map_of (zip (fst ser) (snd ser)) (fst ser ! j) = Some (snd ser ! j)"
    by (rule map_of_is_SomeI)
  with assms(2,5) show ?thesis by (simp add: reindex_def)
qed




lemma index_with_static_columns: "index (with_static_columns cfg df) = index df"
  by (simp add: with_static_columns_def index_setitem_scalar)

lemma nrows_with_static_columns: "nrows (with_static_columns cfg df) = nrows df"
  by (simp add: nrows_def index_with_static_columns)


lemmas stmt_defs = assign_scalar_def assign_reference_time_def cast_reference_time_def bind_def get_df_def set_df_def
  modify_def lift_def

lemma assign_static_columns:
  "frames s v = Some df \<Longrightarrow>
   block (assign_scalar v ''configuration'' (Scalar cfg)
        # assign_scalar v ''variable_name'' (Scalar ''streamflow_daily_mean'')
        # assign_scalar v ''measurement_unit'' (Scalar ''cms'')
        # assign_scalar v ''reference_time'' PyNone # rest) s
   = block rest (s\<lparr>frames := (frames s)(v \<mapsto> with_static_columns cfg df)\<rparr>)"
  by (simp add: stmt_defs with_static_columns_def)

lemma assign_static_columns_unbound:
  "frames s v = None \<Longrightarrow>
   block (assign_scalar v c a # rest) s = (Inl (NameError v), s)"
  by (simp add: stmt_defs)



lemma convert_from_eq:
  assumes "w \<noteq> v"
  shows
  "block [assign_scalar v ''configuration'' (Scalar cfg),
          assign_scalar v ''variable_name'' (Scalar ''streamflow_daily_mean''),
          assign_scalar v ''measurement_unit'' (Scalar ''cms''),
          assign_scalar v ''reference_time'' PyNone,
          assign_reference_time x v w,
          bind (get_df v) (\<lambda>df. to_parquet df p)] s =
     (case frames s v of
        None \<Rightarrow> (Inl (NameError v), s)
      | Some df \<Rightarrow>
          (case frames s w of
             None \<Rightarrow> (Inl (NameError w), s\<lparr>frames := (frames s)(v \<mapsto> with_static_columns cfg df)\<rparr>)
           | Some b \<Rightarrow>
               (case getitem b ''reference_time'' of
                  Inl e \<Rightarrow> (Inl e, s\<lparr>frames := (frames s)(v \<mapsto> with_static_columns cfg df)\<rparr>)
                | Inr col \<Rightarrow>
                    (case astype_datetime (to_datetime x) col of
                       Inl e \<Rightarrow> (Inl e, s\<lparr>frames := (frames s)(v \<mapsto> with_static_columns cfg df)\<rparr>)
                     | Inr ser \<Rightarrow>
                         (case setitem_series ''reference_time'' (index b, ser) (with_static_columns cfg df) of
                            Inl e \<Rightarrow> (Inl e, s\<lparr>frames := (frames s)(v \<mapsto> with_static_columns cfg df)\<rparr>)
                          | Inr d \<Rightarrow> to_parquet d p (s\<lparr>frames := (frames s)(v \<mapsto> d)\<rparr>))))))"
proof (cases "frames s v")
  case None
  then show ?thesis by (simp only: assign_static_columns_unbound option.case)
next
  case (Some df)
  let ?s4 = "s\<lparr>frames := (frames s)(v \<mapsto> with_static_columns cfg df)\<rparr>"
  have "block [assign_reference_time x v w, bind (get_df v) (\<lambda>df. to_parquet df p)] ?s4
      = (case frames s w of
             None \<Rightarrow> (Inl (NameError w), ?s4)
           | Some b \<Rightarrow>
               (case getitem b ''reference_time'' of
                  Inl e \<Rightarrow> (Inl e, ?s4)
                | Inr col \<Rightarrow>
                    (case astype_datetime (to_datetime x) col of
                       Inl e \<Rightarrow> (Inl e, ?s4)
                     | Inr ser \<Rightarrow>
                         (case setitem_series ''reference_time'' (index b, ser) (with_static_columns cfg df) of
                            Inl e \<Rightarrow> (Inl e, ?s4)
                          | Inr d \<Rightarrow> to_parquet d p (s\<lparr>frames := (frames s)(v \<mapsto> d)\<rparr>)))))"
    using assms
    by (simp add: stmt_defs split: option.splits sum.splits prod.splits)
  then show ?thesis
    by (simp only: assign_static_columns [OF Some] Some option.case)
qed



lemma cell_sim_convert_eq:
  "cell_sim_convert x s =
     (case frames s ''sim_ts'' of
        None \<Rightarrow> (Inl (NameError ''sim_ts''), s)
      | Some df \<Rightarrow>
          (case frames s ''baseline_ts'' of
             None \<Rightarrow> (Inl (NameError ''baseline_ts''),
                       s\<lparr>frames := (frames s)(''sim_ts'' \<mapsto> with_static_columns ''sim'' df)\<rparr>)
           | Some b \<Rightarrow>
               (case getitem b ''reference_time'' of
                  Inl e \<Rightarrow> (Inl e, s\<lparr>frames := (frames s)(''sim_ts'' \<mapsto> with_static_columns ''sim'' df)\<rparr>)
                | Inr col \<Rightarrow>
                    (case astype_datetime (to_datetime x) col of
                       Inl e \<Rightarrow> (Inl e, s\<lparr>frames := (frames s)(''sim_ts'' \<mapsto> with_static_columns ''sim'' df)\<rparr>)
                     | Inr ser \<Rightarrow>
                         (case setitem_series ''reference_time'' (index b, ser) (with_static_columns ''sim'' df) of
                            Inl e \<Rightarrow> (Inl e, s\<lparr>frames := (frames s)(''sim_ts'' \<mapsto> with_static_columns ''sim'' df)\<rparr>)
                          | Inr d \<Rightarrow>
                              to_parquet d (SECONDARY_FILEPATH (home x) @ [''sim.parquet''])
                                (s\<lparr>frames := (frames s)(''sim_ts'' \<mapsto> d)\<rparr>))))))"
  unfolding cell_sim_convert_def by (rule convert_from_eq) simp





lemma lookup_fs_put: "lookup (fs_put p e f) q = (if q = [] then Some Dir else if q = p then Some e else lookup f q)"
  by (induction f) (auto simp: lookup_def fs_put_def fs_remove_def)

lemma to_parquet_Inr:
  "to_parquet df p s = (Inr a, s') \<Longrightarrow>
     s' = s\<lparr>trace := trace s @ [To_parquet p df], fs := fs_put p (File (Parquet df)) (fs s)\<rparr>"
  by (auto simp: to_parquet_def bind_def log_def modify_def split: if_splits option.splits entry.splits)

lemma astype_datetime_length: "astype_datetime f vs = Inr ws \<Longrightarrow> length ws = length vs"
  by (induction vs arbitrary: ws) (auto split: sum.splits cell.splits parsed.splits)



lemmas path_defs = EXAMPLE_DIR_def RAW_DATA_FILEPATH_def TEEHR_BASE_def PRIMARY_FILEPATH_def
  SECONDARY_FILEPATH_def CROSSWALK_FILEPATH_def GEOMETRY_FILEPATH_def ATTRIBUTE_FILEPATH_def
  JOINED_FILEPATH_def DB_FILEPATH_def









text \<open>
  Claim C8. The reference_time column written to sim.parquet is the reference_time column
  of the dataframe baseline_ts (cast to datetime64[ns]), aligned by label to the index of
  sim_ts; the column sim_ts had does not enter. On the same index (or when sim_ts has no
  rows) the column is that of baseline_ts as it is. Otherwise the labels of baseline_ts
  are unique and the column is reindexed: a row of sim_ts takes the value baseline_ts has
  at the row's label, and a row whose label baseline_ts does not have gets a missing value
  (NaT).
\<close>

theorem sim_reference_time_from_baseline:
  assumes "cell_sim_convert x s = (Inr (), s')"
  shows "\<exists>sim base col ser vs.
           frames s ''sim_ts'' = Some sim \<and> frames s ''baseline_ts'' = Some base
         \<and> getitem base ''reference_time'' = Inr col
         \<and> astype_datetime (to_datetime x) col = Inr ser
         \<and> written_column s' (SECONDARY_FILEPATH (home x) @ [''sim.parquet'']) ''reference_time'' = Some vs
         \<and> vs = (if index sim = [] \<or> index base = index sim then ser
                 else reindex (index sim) (index base, ser))
         \<and> (index sim \<noteq> [] \<and> index base \<noteq> index sim \<longrightarrow> distinct (index base))
         \<and> (\<forall>i < length (index sim). index sim ! i \<notin> set (index base) \<longrightarrow> vs ! i = NaT)
         \<and> (distinct (index base) \<longrightarrow>
              (\<forall>i < length (index sim). \<forall>j < length (index base).
                 j < length ser \<longrightarrow> index sim ! i = index base ! j \<longrightarrow> vs ! i = ser ! j))"
proof -
  let ?p = "SECONDARY_FILEPATH (home x) @ [''sim.parquet'']"
  from assms obtain sim base col ser d s1 where
    v: "frames s ''sim_ts'' = Some sim" "frames s ''baseline_ts'' = Some base"
      "getitem base ''reference_time'' = Inr col" "astype_datetime (to_datetime x) col = Inr ser"
    and a: "setitem_series ''reference_time'' (index base, ser) (with_static_columns ''sim'' sim) = Inr d"
    and w: "to_parquet d ?p s1 = (Inr (), s')"
    by (auto simp: cell_sim_convert_eq split: option.splits sum.splits)
  define vs where "vs = (if index sim = [] \<or> index base = index sim then ser
                 else reindex (index sim) (index base, ser))"
  from w have "fs s' = fs_put ?p (File (Parquet d)) (fs s1)"
    by (auto dest: to_parquet_Inr)
  moreover have "getitem d ''reference_time'' = Inr vs"
    using getitem_setitem_series [OF a] by (auto simp: index_with_static_columns vs_def)
  ultimately have wr: "written_column s' ?p ''reference_time'' = Some vs"
    by (simp add: written_column_def lookup_fs_put)
  have di: "distinct (index base)" if "index sim \<noteq> []" "index base \<noteq> index sim"
    using setitem_series_distinct [OF a] that by (simp add: index_with_static_columns)
  have ab: "vs ! i = NaT" if "i < length (index sim)" "index sim ! i \<notin> set (index base)" for i
  proof -
    from that have "index sim \<noteq> []" "index base \<noteq> index sim"
      by auto
    then have "vs = reindex (index sim) (index base, ser)"
      by (simp add: vs_def)
    with that show ?thesis
      by (simp add: reindex_absent)
  qed
  have pr: "vs ! i = ser ! j"
    if "distinct (index base)" "i < length (index sim)" "j < length (index base)" "j < length ser"
      "index sim ! i = index base ! j" for i j
  proof (cases "index base = index sim")
    case True
    with that have "i = j"
      by (simp add: nth_eq_iff_index_eq)
    with True show ?thesis by (simp add: vs_def)
  next
    case False
    moreover from that(2) have "index sim \<noteq> []" by auto
    ultimately have "vs = reindex (index sim) (index base, ser)"
      by (simp add: vs_def)
    moreover have "reindex (index sim) (index base, ser) ! i = snd (index base, ser) ! j"
      by (rule reindex_present) (use that in simp_all)
    ultimately show ?thesis by simp
  qed
  from v wr di ab pr vs_def show ?thesis
    by blast
qed

lemma ex_sim_run: "fst (cell_sim_convert ex_ext0 ex_sim_state) = Inr ()"
  by (simp add: cell_sim_convert_eq ex_sim_state_def getitem_def ex_ext0_def setitem_series_cases
        index_with_static_columns to_parquet_def bind_def
        log_def modify_def lookup_def ex_dirs_def path_defs)
     (simp add: columns_def with_static_columns_def setitem_scalar_def)

text \<open>
  Three simulated rows, labelled 0, 1 and 2, with reference times of their own, and two
  baseline rows, labelled 1 and 0 in this order: the rows 0 and 1 take the baseline's
  values at their labels, the row 2 a missing value.
\<close>

theorem sim_reference_time_from_baseline_witness:
  "fst (cell_sim_convert ex_ext0 ex_sim_state) = Inr ()
   \<and> written_column (snd (cell_sim_convert ex_ext0 ex_sim_state))
        (SECONDARY_FILEPATH (home ex_ext0) @ [''sim.parquet'']) ''reference_time''
      = Some [Timestamp ex_date, Timestamp (ex_date\<lparr>year := 2021\<rparr>), NaT]"
proof -
  have r: "cell_sim_convert ex_ext0 ex_sim_state = (Inr (), snd (cell_sim_convert ex_ext0 ex_sim_state))"
    using ex_sim_run by (simp add: prod_eq_iff)
  show ?thesis
    using sim_reference_time_from_baseline [OF r] ex_sim_run
    by (auto simp: ex_sim_state_def getitem_def ex_ext0_def reindex_def)
qed

lemma db_rows_Inr:
  "db_rows s = (Inr rows, s') \<Longrightarrow>
     s' = s \<and> (\<exists>p. ddb s = Some p \<and> p \<noteq> [] \<and> lookup (fs s) p = Some (File (Database rows)))"
  by (auto simp: db_rows_def lookup_def split: option.splits entry.splits content.splits if_splits)

lemma db_rows_trace: "db_rows (s\<lparr>trace := t\<rparr>) = (case db_rows s of (r, s') \<Rightarrow> (r, s'\<lparr>trace := t\<rparr>))"
  by (auto simp: db_rows_def split: option.splits entry.splits content.splits)

lemma db_rows_after_store:
  "ddb s = Some p \<Longrightarrow> p \<noteq> [] \<Longrightarrow> db_store rows s = (r, s') \<Longrightarrow> db_rows s' = (Inr rows, s')"
  by (auto simp: db_store_def db_rows_def lookup_fs_put)

lemma sorted_select_ordered: "sorted (map order_key (select_ordered rows))"
  by (simp add: select_ordered_def)

lemma mset_select_ordered: "mset (select_ordered rows) = mset rows"
  by (simp add: select_ordered_def)

text \<open>
  Claim C10. The export cell writes to joined.parquet all the rows of the table
  joined_timeseries (the same rows with the same multiplicities), sorted ascending by the
  key (configuration, primary_location_id, value_time); the order is that of the ORDER BY
  clause of the notebook's own COPY query.
\<close>

theorem export_sorted:
  assumes "cell_export x s = (Inr (), s')"
  shows "\<exists>rows out. table s = Some rows
           \<and> exported s' (JOINED_FILEPATH (home x) @ [''joined.parquet'']) = Some out
           \<and> mset out = mset rows
           \<and> sorted (map (\<lambda>r. (configuration r, primary_location_id r, datetime_key (value_time r))) out)"
proof -
  let ?p = "JOINED_FILEPATH (home x) @ [''joined.parquet'']"
  let ?s1 = "s\<lparr>trace := trace s @ [Copy_to ?p]\<rparr>"
  from assms obtain rows where rows: "db_rows ?s1 = (Inr rows, ?s1)"
    and s': "fs s' = fs_put ?p (File (Joined_parquet (select_ordered rows))) (fs s)"
    unfolding cell_export_def copy_to_def bind_def log_def modify_def
    by (auto split: prod.splits sum.splits option.splits entry.splits if_splits dest: db_rows_Inr)
  from rows have "table s = Some rows"
    by (auto simp: table_def db_rows_trace split: prod.splits sum.splits)
  moreover from s' have "exported s' ?p = Some (select_ordered rows)"
    by (simp add: exported_def lookup_fs_put)
  moreover have "sorted (map (\<lambda>r. (configuration r, primary_location_id r, datetime_key (value_time r)))
      (select_ordered rows))"
    using sorted_select_ordered [of rows] by (simp add: order_key_def [abs_def])
  ultimately show ?thesis
    by (simp add: mset_select_ordered)
qed

lemma ex_sorted: "select_ordered ex_rows =
    [ex_row ''baseline'' ''gage-A'' 1, ex_row ''baseline'' ''gage-A'' 2,
     ex_row ''baseline'' ''gage-B'' 1, ex_row ''sim'' ''gage-A'' 1]"
  by code_simp

lemma ex_export_run: "cell_export ex_ext0 (ex_db_state ex_rows) =
   (Inr (), (ex_db_state ex_rows)\<lparr>trace := [Copy_to (JOINED_FILEPATH [''home''] @ [''joined.parquet''])],
      fs := fs_put (JOINED_FILEPATH [''home''] @ [''joined.parquet''])
             (File (Joined_parquet (select_ordered ex_rows))) (fs (ex_db_state ex_rows))\<rparr>)"
  by (simp add: cell_export_def copy_to_def bind_def log_def modify_def db_rows_def ex_db_state_def
      ex_ext0_def lookup_def path_defs)

text \<open>
  Four rows stored out of order are exported in the order of the key.
\<close>

theorem export_sorted_witness:
  "fst (cell_export ex_ext0 (ex_db_state ex_rows)) = Inr ()
   \<and> table (ex_db_state ex_rows) = Some ex_rows
   \<and> exported (snd (cell_export ex_ext0 (ex_db_state ex_rows)))
        (JOINED_FILEPATH (home ex_ext0) @ [''joined.parquet''])
      = Some [ex_row ''baseline'' ''gage-A'' 1, ex_row ''baseline'' ''gage-A'' 2,
              ex_row ''baseline'' ''gage-B'' 1, ex_row ''sim'' ''gage-A'' 1]
   \<and> sorted (map (\<lambda>r. (configuration r, primary_location_id r, datetime_key (value_time r)))
        [ex_row ''baseline'' ''gage-A'' 1, ex_row ''baseline'' ''gage-A'' 2,
         ex_row ''baseline'' ''gage-B'' 1, ex_row ''sim'' ''gage-A'' 1])"
proof -
  have r: "cell_export ex_ext0 (ex_db_state ex_rows)
      = (Inr (), snd (cell_export ex_ext0 (ex_db_state ex_rows)))"
    by (simp add: ex_export_run)
  have e: "exported (snd (cell_export ex_ext0 (ex_db_state ex_rows)))
        (JOINED_FILEPATH (home ex_ext0) @ [''joined.parquet''])
      = Some [ex_row ''baseline'' ''gage-A'' 1, ex_row ''baseline'' ''gage-A'' 2,
              ex_row ''baseline'' ''gage-B'' 1, ex_row ''sim'' ''gage-A'' 1]"
    by (simp add: ex_export_run exported_def lookup_fs_put ex_sorted) (simp add: ex_ext0_def)
  have t: "table (ex_db_state ex_rows) = Some ex_rows"
    by (simp add: table_def db_rows_def ex_db_state_def lookup_def path_defs)
  from export_sorted [OF r] obtain out where
    o: "exported (snd (cell_export ex_ext0 (ex_db_state ex_rows)))
          (JOINED_FILEPATH (home ex_ext0) @ [''joined.parquet'']) = Some out"
      "sorted (map (\<lambda>r. (configuration r, primary_location_id r, datetime_key (value_time r))) out)"
    by blast
  from o(1) e have "out = [ex_row ''baseline'' ''gage-A'' 1, ex_row ''baseline'' ''gage-A'' 2,
              ex_row ''baseline'' ''gage-B'' 1, ex_row ''sim'' ''gage-A'' 1]"
    by simp
  with o(2) have s: "sorted (map (\<lambda>r. (configuration r, primary_location_id r, datetime_key (value_time r)))
        [ex_row ''baseline'' ''gage-A'' 1, ex_row ''baseline'' ''gage-A'' 2,
         ex_row ''baseline'' ''gage-B'' 1, ex_row ''sim'' ''gage-A'' 1])"
    by blast
  have f: "fst (cell_export ex_ext0 (ex_db_state ex_rows)) = Inr ()"
    by (simp add: ex_export_run)
  from f t e s show ?thesis
    by blast
qed

subsection \<open>Calculated field\<close>

lemma map_of_set_field: "map_of (set_field n v kvs) k = (if k = n then Some v else map_of kvs k)"
  by (induction kvs) auto

text \<open>
  Claim C3. The cell adds to every row of the joined table a field named month, of type
  INTEGER, whose value is the month of the row's value_time; for a value_time that is a
  datetime of the calendar the value lies between 1 and 12. (Spec-modelled: the row-wise
  application is that of the external insert_calculated_field.)
\<close>

theorem month_field:
  assumes "cell_add_month s = (Inr (), s')"
  shows "\<exists>rows rows'. table s = Some rows \<and> table s' = Some rows'
           \<and> length rows' = length rows
           \<and> (\<forall>i < length rows.
                 value_time (rows' ! i) = value_time (rows ! i)
               \<and> map_of (added_fields (rows' ! i)) ''month'' = Some (Integer (int (month (value_time (rows ! i)))))
               \<and> (valid_datetime (value_time (rows ! i)) \<longrightarrow>
                    (\<exists>m. map_of (added_fields (rows' ! i)) ''month'' = Some (Integer m) \<and> 1 \<le> m \<and> m \<le> 12)))"
proof -
  let ?s1 = "s\<lparr>trace := trace s @ [Insert_calculated_field ''month'' ''INTEGER'']\<rparr>"
  let ?f = "\<lambda>r. r\<lparr>added_fields := set_field ''month'' (Integer (add_month_field (value_time r))) (added_fields r)\<rparr>"
  from assms obtain rows where rows: "db_rows ?s1 = (Inr rows, ?s1)"
    and st: "db_store (map ?f rows) ?s1 = (Inr (), s')"
    unfolding cell_add_month_def insert_calculated_field_def bind_def log_def modify_def
    by (auto split: prod.splits sum.splits dest: db_rows_Inr)
  from rows obtain p where p: "ddb ?s1 = Some p" "p \<noteq> []"
    by (auto dest: db_rows_Inr)
  from rows have t: "table s = Some rows"
    by (auto simp: table_def db_rows_trace split: prod.splits sum.splits)
  from db_rows_after_store [OF p st] have t': "table s' = Some (map ?f rows)"
    by (simp add: table_def)
  show ?thesis
    using t t' by (auto simp: map_of_set_field add_month_field_def valid_datetime_def)
qed

lemma ex_month_run: "fst (cell_add_month ex_month_state) = Inr ()"
  by (simp add: cell_add_month_def insert_calculated_field_def bind_def log_def modify_def db_rows_def
      db_store_def ex_month_state_def ex_db_state_def lookup_def path_defs)

text \<open>
  A row of 1 March 2020 gets month 3.
\<close>

theorem month_field_witness:
  "fst (cell_add_month ex_month_state) = Inr ()
   \<and> table ex_month_state = Some [ex_row ''sim'' ''gage-A'' 1]
   \<and> valid_datetime (value_time (ex_row ''sim'' ''gage-A'' 1))
   \<and> (\<exists>r. table (snd (cell_add_month ex_month_state)) = Some [r]
          \<and> map_of (added_fields r) ''month'' = Some (Integer 3))"
proof -
  have r: "cell_add_month ex_month_state = (Inr (), snd (cell_add_month ex_month_state))"
    using ex_month_run by (simp add: prod_eq_iff)
  have t: "table ex_month_state = Some [ex_row ''sim'' ''gage-A'' 1]"
    by (simp add: table_def db_rows_def ex_month_state_def ex_db_state_def lookup_def path_defs)
  have v: "valid_datetime (value_time (ex_row ''sim'' ''gage-A'' 1))"
    by (simp add: valid_datetime_def ex_row_def ex_date_def days_in_month_def)
  from month_field [OF r] t obtain rows' where
    t': "table (snd (cell_add_month ex_month_state)) = Some rows'" "length rows' = 1"
    and m: "map_of (added_fields (rows' ! 0)) ''month''
        = Some (Integer (int (month (value_time (ex_row ''sim'' ''gage-A'' 1)))))"
    by auto
  from t'(2) obtain r' where "rows' = [r']"
    by (cases rows') auto
  with t' m have "table (snd (cell_add_month ex_month_state)) = Some [r']
      \<and> map_of (added_fields r') ''month'' = Some (Integer 3)"
    by (simp add: ex_row_def ex_date_def)
  with ex_month_run t v show ?thesis
    by blast
qed

subsection \<open>The join\<close>

lemma join_timeseries_pairs:
  "r \<in> set (join_timeseries prim sec xw) \<Longrightarrow> pairs prim sec xw r \<and> added_fields r = []"
  unfolding join_timeseries_def pairs_def joined_record_def by fastforce

lemma add_attributes_pairs: "pairs prim sec xw (add_attributes attrs r) = pairs prim sec xw r"
  by (simp add: pairs_def add_attributes_def)

lemma read_table_Inr: "read_table rd d s = (r, s') \<Longrightarrow> s' = s"
  by (auto simp: read_table_def split: list.splits)

lemma read_table_trace:
  "read_table rd d (s\<lparr>trace := t\<rparr>) = (case read_table rd d s of (r, s') \<Rightarrow> (r, s'\<lparr>trace := t\<rparr>))"
  by (auto simp: read_table_def split: list.splits)

lemma bind_InrE:
  assumes "bind m k s = (Inr b, s')"
  obtains a s1 where "m s = (Inr a, s1)" and "k a s1 = (Inr b, s')"
  using assms by (auto simp: bind_def split: prod.splits sum.splits)

lemma log_eq: "log a s = (r, s') \<Longrightarrow> s' = s\<lparr>trace := trace s @ [a]\<rparr>"
  by (auto simp: log_def modify_def)

lemma table_trace: "table (s\<lparr>trace := t\<rparr>) = table s"
  by (auto simp: table_def db_rows_trace split: prod.splits sum.splits)

lemma read_from_trace: "read_from rd d (s\<lparr>trace := t\<rparr>) = read_from rd d s"
  by (auto simp: read_from_def read_table_trace split: prod.splits sum.splits)

lemma db_rows_table: "db_rows s = (Inr rows, s') \<Longrightarrow> table s = Some rows"
  by (simp add: table_def)

lemma read_table_read_from: "read_table rd d s = (Inr xs, s') \<Longrightarrow> read_from rd d s = Some xs"
  by (simp add: read_from_def)

lemma db_store_table:
  assumes "db_rows s = (Inr old, s0)" and "db_store rows s = (Inr (), s1)"
  shows "table s1 = Some rows"
proof -
  from assms(1) obtain p where "ddb s = Some p" "p \<noteq> []"
    by (auto dest: db_rows_Inr)
  from db_rows_after_store [OF this assms(2)] show ?thesis
    by (simp add: table_def)
qed

lemma insert_joined_Inr:
  assumes "cell_insert_joined x s = (Inr (), s1)"
  shows "\<exists>old prim sec xw.
           table s = Some old
         \<and> read_from (read_timeseries x) (PRIMARY_FILEPATH (home x)) s = Some prim
         \<and> read_from (read_timeseries x) (SECONDARY_FILEPATH (home x)) s = Some sec
         \<and> read_from (read_crosswalk x) (CROSSWALK_FILEPATH (home x)) s = Some xw
         \<and> table s1 = Some (map (\<lambda>r. r\<lparr>added_fields := []\<rparr>) old @ join_timeseries prim sec xw)"
proof -
  let ?s0 = "s\<lparr>trace := trace s @ [Insert_joined_timeseries]\<rparr>"
  from assms have "bind (log Insert_joined_timeseries) (\<lambda>_.
     bind db_rows (\<lambda>rows.
     bind (read_table (read_timeseries x) (PRIMARY_FILEPATH (home x))) (\<lambda>prim.
     bind (read_table (read_timeseries x) (SECONDARY_FILEPATH (home x))) (\<lambda>sec.
     bind (read_table (read_crosswalk x) (CROSSWALK_FILEPATH (home x))) (\<lambda>xw.
     db_store (map (\<lambda>r. r\<lparr>added_fields := []\<rparr>) rows @ join_timeseries prim sec xw)))))) s = (Inr (), s1)"
    unfolding cell_insert_joined_def insert_joined_timeseries_def by simp
  then obtain u t0 where l: "log Insert_joined_timeseries s = (Inr u, t0)"
    and 0: "bind db_rows (\<lambda>rows.
     bind (read_table (read_timeseries x) (PRIMARY_FILEPATH (home x))) (\<lambda>prim.
     bind (read_table (read_timeseries x) (SECONDARY_FILEPATH (home x))) (\<lambda>sec.
     bind (read_table (read_crosswalk x) (CROSSWALK_FILEPATH (home x))) (\<lambda>xw.
     db_store (map (\<lambda>r. r\<lparr>added_fields := []\<rparr>) rows @ join_timeseries prim sec xw))))) t0 = (Inr (), s1)"
    by (rule bind_InrE)
  from l have t0: "t0 = ?s0" by (rule log_eq)
  from 0 obtain old t1 where old: "db_rows t0 = (Inr old, t1)"
    and 1: "bind (read_table (read_timeseries x) (PRIMARY_FILEPATH (home x))) (\<lambda>prim.
     bind (read_table (read_timeseries x) (SECONDARY_FILEPATH (home x))) (\<lambda>sec.
     bind (read_table (read_crosswalk x) (CROSSWALK_FILEPATH (home x))) (\<lambda>xw.
     db_store (map (\<lambda>r. r\<lparr>added_fields := []\<rparr>) old @ join_timeseries prim sec xw)))) t1 = (Inr (), s1)"
    by (rule bind_InrE)
  from old have t1: "t1 = t0" by (auto dest: db_rows_Inr)
  from 1 obtain prim t2 where prim: "read_table (read_timeseries x) (PRIMARY_FILEPATH (home x)) t1 = (Inr prim, t2)"
    and 2: "bind (read_table (read_timeseries x) (SECONDARY_FILEPATH (home x))) (\<lambda>sec.
     bind (read_table (read_crosswalk x) (CROSSWALK_FILEPATH (home x))) (\<lambda>xw.
     db_store (map (\<lambda>r. r\<lparr>added_fields := []\<rparr>) old @ join_timeseries prim sec xw))) t2 = (Inr (), s1)"
    by (rule bind_InrE)
  from prim have t2: "t2 = t1" by (rule read_table_Inr)
  from 2 obtain sec t3 where sec: "read_table (read_timeseries x) (SECONDARY_FILEPATH (home x)) t2 = (Inr sec, t3)"
    and 3: "bind (read_table (read_crosswalk x) (CROSSWALK_FILEPATH (home x))) (\<lambda>xw.
     db_store (map (\<lambda>r. r\<lparr>added_fields := []\<rparr>) old @ join_timeseries prim sec xw)) t3 = (Inr (), s1)"
    by (rule bind_InrE)
  from sec have t3: "t3 = t2" by (rule read_table_Inr)
  from 3 obtain xw t4 where xw: "read_table (read_crosswalk x) (CROSSWALK_FILEPATH (home x)) t3 = (Inr xw, t4)"
    and 4: "db_store (map (\<lambda>r. r\<lparr>added_fields := []\<rparr>) old @ join_timeseries prim sec xw) t4 = (Inr (), s1)"
    by (rule bind_InrE)
  from xw have t4: "t4 = t3" by (rule read_table_Inr)
  have "table s = Some old"
    using db_rows_table [OF old] by (simp add: t0 table_trace)
  moreover have "read_from (read_timeseries x) (PRIMARY_FILEPATH (home x)) s = Some prim"
    using read_table_read_from [OF prim] by (simp add: t0 t1 read_from_trace)
  moreover have "read_from (read_timeseries x) (SECONDARY_FILEPATH (home x)) s = Some sec"
    using read_table_read_from [OF sec] by (simp add: t0 t1 t2 read_from_trace)
  moreover have "read_from (read_crosswalk x) (CROSSWALK_FILEPATH (home x)) s = Some xw"
    using read_table_read_from [OF xw] by (simp add: t0 t1 t2 t3 read_from_trace)
  moreover have "table s1 = Some (map (\<lambda>r. r\<lparr>added_fields := []\<rparr>) old @ join_timeseries prim sec xw)"
    using old 4 unfolding t4 t3 t2 t1 by (rule db_store_table)
  ultimately show ?thesis by blast
qed

lemma insert_attributes_Inr:
  assumes "cell_insert_attributes x s = (Inr (), s1)"
  shows "\<exists>rows attrs.
           table s = Some rows
         \<and> read_from (read_attributes x) (ATTRIBUTE_FILEPATH (home x)) s = Some attrs
         \<and> table s1 = Some (map (add_attributes attrs) rows)"
proof -
  from assms have "bind (log Insert_attributes) (\<lambda>_.
     bind db_rows (\<lambda>rows.
     bind (read_table (read_attributes x) (ATTRIBUTE_FILEPATH (home x))) (\<lambda>attrs.
     db_store (map (add_attributes attrs) rows)))) s = (Inr (), s1)"
    unfolding cell_insert_attributes_def insert_attributes_def by simp
  then obtain u t0 where l: "log Insert_attributes s = (Inr u, t0)"
    and 0: "bind db_rows (\<lambda>rows.
     bind (read_table (read_attributes x) (ATTRIBUTE_FILEPATH (home x))) (\<lambda>attrs.
     db_store (map (add_attributes attrs) rows))) t0 = (Inr (), s1)"
    by (rule bind_InrE)
  from l have t0: "t0 = s\<lparr>trace := trace s @ [Insert_attributes]\<rparr>" by (rule log_eq)
  from 0 obtain rows t1 where rows: "db_rows t0 = (Inr rows, t1)"
    and 1: "bind (read_table (read_attributes x) (ATTRIBUTE_FILEPATH (home x))) (\<lambda>attrs.
     db_store (map (add_attributes attrs) rows)) t1 = (Inr (), s1)"
    by (rule bind_InrE)
  from rows have t1: "t1 = t0" by (auto dest: db_rows_Inr)
  from 1 obtain attrs t2 where attrs: "read_table (read_attributes x) (ATTRIBUTE_FILEPATH (home x)) t1 = (Inr attrs, t2)"
    and 2: "db_store (map (add_attributes attrs) rows) t2 = (Inr (), s1)"
    by (rule bind_InrE)
  from attrs have t2: "t2 = t1" by (rule read_table_Inr)
  have "table s = Some rows"
    using db_rows_table [OF rows] by (simp add: t0 table_trace)
  moreover have "read_from (read_attributes x) (ATTRIBUTE_FILEPATH (home x)) s = Some attrs"
    using read_table_read_from [OF attrs] by (simp add: t0 t1 read_from_trace)
  moreover have "table s1 = Some (map (add_attributes attrs) rows)"
    using rows 2 unfolding t2 t1 by (rule db_store_table)
  ultimately show ?thesis by blast
qed

text \<open>
  Claim C1. Every row that insert_joined_timeseries and insert_attributes add to the joined
  table pairs the value of a primary record and the value of a secondary record that have
  the same value_time and whose locations are related by a row of the crosswalk table, and
  carries the attributes of its primary location. (Spec-modelled: the join and the
  enrichment are those of the external teehr package, as the spec describes them.)
\<close>

theorem joined_rows_paired:
  assumes "cell_insert_joined x s = (Inr (), s1)"
    and "cell_insert_attributes x s1 = (Inr (), s2)"
  shows "\<exists>old prim sec xw attrs new.
           table s = Some old
         \<and> read_from (read_timeseries x) (PRIMARY_FILEPATH (home x)) s = Some prim
         \<and> read_from (read_timeseries x) (SECONDARY_FILEPATH (home x)) s = Some sec
         \<and> read_from (read_crosswalk x) (CROSSWALK_FILEPATH (home x)) s = Some xw
         \<and> read_from (read_attributes x) (ATTRIBUTE_FILEPATH (home x)) s1 = Some attrs
         \<and> table s2 = Some (map (add_attributes attrs) (map (\<lambda>r. r\<lparr>added_fields := []\<rparr>) old) @ new)
         \<and> (\<forall>r \<in> set new.
               pairs prim sec xw r
             \<and> added_fields r = attributes_of attrs (primary_location_id r))"
proof -
  from insert_joined_Inr [OF assms(1)] obtain old prim sec xw where
    a: "table s = Some old"
      "read_from (read_timeseries x) (PRIMARY_FILEPATH (home x)) s = Some prim"
      "read_from (read_timeseries x) (SECONDARY_FILEPATH (home x)) s = Some sec"
      "read_from (read_crosswalk x) (CROSSWALK_FILEPATH (home x)) s = Some xw"
      "table s1 = Some (map (\<lambda>r. r\<lparr>added_fields := []\<rparr>) old @ join_timeseries prim sec xw)"
    by blast
  from insert_attributes_Inr [OF assms(2)] a(5) obtain attrs where
    b: "read_from (read_attributes x) (ATTRIBUTE_FILEPATH (home x)) s1 = Some attrs"
      "table s2 = Some (map (add_attributes attrs) (map (\<lambda>r. r\<lparr>added_fields := []\<rparr>) old)
          @ map (add_attributes attrs) (join_timeseries prim sec xw))"
    by auto
  have "\<forall>r \<in> set (map (add_attributes attrs) (join_timeseries prim sec xw)).
          pairs prim sec xw r \<and> added_fields r = attributes_of attrs (primary_location_id r)"
    by (auto simp: add_attributes_pairs dest!: join_timeseries_pairs)
       (simp add: add_attributes_def attributes_of_def)
  with a b show ?thesis by blast
qed

lemma ex_join_run1: "fst (cell_insert_joined ex_ext1 ex_join_state) = Inr ()"
  by code_simp

lemma ex_join_run2:
  "fst (cell_insert_attributes ex_ext1 (snd (cell_insert_joined ex_ext1 ex_join_state))) = Inr ()"
  by code_simp

lemma ex_join_table:
  "table (snd (cell_insert_attributes ex_ext1 (snd (cell_insert_joined ex_ext1 ex_join_state))))
     = Some [ex_joined_row]"
  by code_simp

lemma ex_join_reads:
  "table ex_join_state = Some []"
  "read_from (read_timeseries ex_ext1) (PRIMARY_FILEPATH (home ex_ext1)) ex_join_state
     = Some [ex_ts ''gage-A'' ''1.5'' ''usgs'']"
  "read_from (read_timeseries ex_ext1) (SECONDARY_FILEPATH (home ex_ext1)) ex_join_state
     = Some [ex_ts ''s-1'' ''1.6'' ''sim'', ex_ts ''s-2'' ''1.7'' ''sim'']"
  "read_from (read_crosswalk ex_ext1) (CROSSWALK_FILEPATH (home ex_ext1)) ex_join_state = Some [ex_xw]"
  "read_from (read_attributes ex_ext1) (ATTRIBUTE_FILEPATH (home ex_ext1))
     (snd (cell_insert_joined ex_ext1 ex_join_state)) = Some [ex_attr]"
  by code_simp+

text \<open>
  One observed record, two simulated records of which one is at a location in the
  crosswalk: the joined table has the one paired row, with the attribute of its location.
\<close>

theorem joined_rows_paired_witness:
  "fst (cell_insert_joined ex_ext1 ex_join_state) = Inr ()
   \<and> fst (cell_insert_attributes ex_ext1 (snd (cell_insert_joined ex_ext1 ex_join_state))) = Inr ()
   \<and> table (snd (cell_insert_attributes ex_ext1 (snd (cell_insert_joined ex_ext1 ex_join_state))))
        = Some [ex_joined_row]
   \<and> pairs [ex_ts ''gage-A'' ''1.5'' ''usgs''] [ex_ts ''s-1'' ''1.6'' ''sim'', ex_ts ''s-2'' ''1.7'' ''sim'']
        [ex_xw] ex_joined_row
   \<and> added_fields ex_joined_row = attributes_of [ex_attr] (primary_location_id ex_joined_row)"
proof -
  have r1: "cell_insert_joined ex_ext1 ex_join_state
      = (Inr (), snd (cell_insert_joined ex_ext1 ex_join_state))"
    using ex_join_run1 by (simp add: prod_eq_iff)
  have r2: "cell_insert_attributes ex_ext1 (snd (cell_insert_joined ex_ext1 ex_join_state))
      = (Inr (), snd (cell_insert_attributes ex_ext1 (snd (cell_insert_joined ex_ext1 ex_join_state))))"
    using ex_join_run2 by (simp add: prod_eq_iff)
  from joined_rows_paired [OF r1 r2] obtain new where
    "[ex_joined_row] = new"
    "\<forall>r \<in> set new. pairs [ex_ts ''gage-A'' ''1.5'' ''usgs''] [ex_ts ''s-1'' ''1.6'' ''sim'', ex_ts ''s-2'' ''1.7'' ''sim'']
        [ex_xw] r \<and> added_fields r = attributes_of [ex_attr] (primary_location_id r)"
    unfolding ex_join_reads ex_join_table by auto
  then have "pairs [ex_ts ''gage-A'' ''1.5'' ''usgs''] [ex_ts ''s-1'' ''1.6'' ''sim'', ex_ts ''s-2'' ''1.7'' ''sim'']
        [ex_xw] ex_joined_row
      \<and> added_fields ex_joined_row = attributes_of [ex_attr] (primary_location_id ex_joined_row)"
    by auto
  with ex_join_run1 ex_join_run2 ex_join_table show ?thesis
    by blast
qed

subsection \<open>Operations emitted by a computation\<close>



lemma emits_bind:
  assumes m: "emits W m" and k: "\<And>a. emits W (k a)"
  shows "emits W (bind m k)"
  unfolding emits_def
proof (intro allI impI)
  fix s r s'
  assume run: "bind m k s = (r, s')"
  obtain r1 s1 where m1: "m s = (r1, s1)" by (cases "m s")
  with m obtain n1 where n1: "trace s1 = trace s @ n1" "list_all W n1"
    unfolding emits_def by blast
  show "\<exists>new. trace s' = trace s @ new \<and> list_all W new"
  proof (cases r1)
    case (Inl e)
    with run m1 have "s' = s1" by (simp add: bind_def)
    with n1 show ?thesis by blast
  next
    case (Inr a)
    with run m1 have "k a s1 = (r, s')" by (simp add: bind_def)
    with k obtain n2 where "trace s' = trace s1 @ n2" "list_all W n2"
      unfolding emits_def by blast
    with n1 have "trace s' = trace s @ (n1 @ n2)" "list_all W (n1 @ n2)" by simp_all
    then show ?thesis by blast
  qed
qed


























































subsection \<open>Segments of the notebook\<close>

lemma run_all_segment: "run_all x = segment x 0 27"
  by (simp add: run_all_def segment_def notebook_def)












subsection \<open>The sequence of operations\<close>








subsection \<open>The directories of the Parquet files\<close>






subsection \<open>The static columns\<close>

lemma block_append:
  "block (xs @ ys) s = (case block xs s of (Inl e, s') \<Rightarrow> (Inl e, s') | (Inr _, s') \<Rightarrow> block ys s')"
  by (induction xs arbitrary: s) (auto split: prod.splits sum.splits)

lemma emits_block_append:
  assumes "emits W (block xs)" and "emits W (block ys)"
  shows "emits W (block (xs @ ys))"
proof -
  have "block (xs @ ys) = bind (block xs) (\<lambda>_. block ys)"
    by (rule ext) (simp add: block_append bind_def)
  with assms show ?thesis by (simp add: emits_bind)
qed

































subsection \<open>Exceptions\<close>



















end
